theory Spec2Isabelle
  imports Complex_Main "HOL-Library.Log_Nat"
begin

section \<open>Numbers\<close>

text \<open>
  Every number of the program is an IEEE double. The model uses three views of it:
  \<^item> vertical positions (\<open>cy\<close>, \<open>y1\<close>, \<open>y2\<close>) are kept by the program as the decimal text of
    a number, read back with \<open>Number(...)\<close> and written with a template string. Every position
    the program writes is an integer (start row 0, target row 350, a rounded tail length,
    steps of 1), so the model stores the integer itself, as \<open>int\<close>;
  \<^item> the object counter is a natural number and the combo counter an integer, both far
    below \<open>2 ^ 53\<close>, where doubles are exact. Score, multiplier and the fields of a note
    are rationals with exact arithmetic: the multiplier is a multiple of one tenth (the
    program rounds it to one decimal with \<open>toFixed(1)\<close>), the score a sum of products of
    small integers with it, and the model takes their ideal values;
  \<^item> the random number generator multiplies its seed by 1103515245, which leaves the range
    where doubles are exact. There each operation is modelled as the exact operation followed
    by rounding to the nearest double (function \<open>fl\<close> below).
\<close>

type_synonym number = rat

subsection \<open>Rounding to the nearest double\<close>

text \<open>
  \<open>expo x\<close> is the binary exponent of a positive rational: \<open>2 ^ expo x \<le> x < 2 ^ (expo x + 1)\<close>.
  It is computed from the bit lengths of numerator and denominator.
\<close>

definition expo :: "rat \<Rightarrow> int" where
  "expo x =
     (let (p, q) = quotient_of x;
          e0 = bitlen p - bitlen q
      in if 2 powi e0 \<le> x then e0 else e0 - 1)"

text \<open>Round to the nearest integer, ties to the even one.\<close>

definition round_even :: "rat \<Rightarrow> int" where
  "round_even r =
     (let f = \<lfloor>r\<rfloor>; d = r - of_int f
      in if d < 1 / 2 then f
         else if 1 / 2 < d then f + 1
         else if even f then f else f + 1)"

text \<open>
  \<open>fl x\<close> is the double nearest to \<open>x\<close>: 53 significant bits, ties to even. Overflow to
  infinity and the subnormal range are outside the model (no value of the generator comes
  near either).
\<close>

definition fl :: "rat \<Rightarrow> rat" where
  "fl x =
     (if x = 0 then 0
      else let u = 2 powi (expo \<bar>x\<bar> - 52)
           in of_int (round_even (x / u)) * u)"

definition fadd :: "number \<Rightarrow> number \<Rightarrow> number" where
  "fadd x y = fl (x + y)"

definition fsub :: "number \<Rightarrow> number \<Rightarrow> number" where
  "fsub x y = fl (x - y)"

definition fmul :: "number \<Rightarrow> number \<Rightarrow> number" where
  "fmul x y = fl (x * y)"

definition fdiv :: "number \<Rightarrow> number \<Rightarrow> number" where
  "fdiv x y = fl (x / y)"

text \<open>
  The remainder operator \<open>%\<close> of JavaScript on doubles: the quotient is truncated towards
  zero, the result has the sign of the dividend and is exact.
\<close>

definition trunc :: "rat \<Rightarrow> int" where
  "trunc x = (if 0 \<le> x then \<lfloor>x\<rfloor> else \<lceil>x\<rceil>)"

definition fmod :: "number \<Rightarrow> number \<Rightarrow> number" where
  "fmod x y = x - y * of_int (trunc (x / y))"


section \<open>Constants\<close>

definition CANVAS_WIDTH :: number where "CANVAS_WIDTH = 200"
definition CANVAS_HEIGHT :: number where "CANVAS_HEIGHT = 400"

definition TICK_RATE_MS :: number where "TICK_RATE_MS = 5"
definition STARTING_OBJ_COUNT :: nat where "STARTING_OBJ_COUNT = 0"
definition TARGET_CY :: int where "TARGET_CY = 350"
definition TARGET_RANGE :: int where "TARGET_RANGE = 20"
definition EXPIRE_LIMIT :: int where "EXPIRE_LIMIT = 400"
definition STARTING_SCORE :: number where "STARTING_SCORE = 0"
definition SCORE_INCREASE :: number where "SCORE_INCREASE = 10"
definition BASE_CONSECUTIVE_HITS :: int where "BASE_CONSECUTIVE_HITS = 0"
definition BASE_MULTIPLIER :: number where "BASE_MULTIPLIER = 1"
definition MULTIPLIER_INCREASE :: number where "MULTIPLIER_INCREASE = 2 / 10"
definition HITS_PER_MULTIPLIER_INCREASE :: number where "HITS_PER_MULTIPLIER_INCREASE = 10"

text \<open>The literal \<open>0.1\<close> denotes the double nearest to one tenth.\<close>

definition STARTING_RANDOM_NUMBER :: number where "STARTING_RANDOM_NUMBER = fl (1 / 10)"

definition START_CY :: int where "START_CY = 0"

text \<open>\<open>RADIUS\<close> is the double product \<open>0.07 * 200\<close>, which is not 14.\<close>

definition RADIUS :: number where "RADIUS = fmul (fl (7 / 100)) CANVAS_WIDTH"
definition TAIL_WIDTH :: nat where "TAIL_WIDTH = 10"
definition MOVEMENT :: int where "MOVEMENT = 1"
definition DURATION_FOR_TAIL :: number where "DURATION_FOR_TAIL = 1"

section \<open>User input\<close>

datatype ColumnKey = KeyH | KeyJ | KeyK | KeyL

fun keyToColumn :: "ColumnKey \<Rightarrow> string" where
  "keyToColumn KeyH = ''20%''"
| "keyToColumn KeyJ = ''40%''"
| "keyToColumn KeyK = ''60%''"
| "keyToColumn KeyL = ''80%''"

section \<open>Data model\<close>

text \<open>
  \<open>instrumentName\<close> is optional: the program reads it from an array by index, and an index
  outside the array gives \<open>undefined\<close>.
\<close>

record NoteData =
  userPlayed :: bool
  instrumentName :: "string option"
  velocity :: number
  pitch :: number
  start_n :: number
  end_n :: number

record Circle =
  id_c :: string
  r_c :: number
  cx :: string
  cy :: int
  style_c :: string
  class_c :: string
  note_c :: NoteData
  hasTail :: bool

record BgCircle =
  cy_bg :: int
  note_bg :: NoteData

record Tail =
  id_t :: string
  x1 :: string
  y1 :: int
  x2 :: string
  y2 :: int
  style_t :: string
  isPlayed :: bool
  isStartNote :: bool
  circle :: Circle
  class_t :: string

record State =
  backgroundCircles :: "BgCircle list"
  circles :: "Circle list"
  playedCircles :: "Circle list"
  tails :: "Tail list"
  finishedTails :: "Tail list"
  exit :: "(Circle + Tail) list"
  objCount :: nat
  score :: number
  consecutiveHits :: int
  multiplier :: number
  randomNumber :: number
  gameEnd :: bool

section \<open>Utility functions\<close>

subsection \<open>Random number generator\<close>

definition RNG_m :: number where "RNG_m = 2147483648"
definition RNG_a :: number where "RNG_a = 1103515245"
definition RNG_c :: number where "RNG_c = 12345"

definition hash :: "number \<Rightarrow> number" where
  "hash seed = fmod (fadd (fmul RNG_a seed) RNG_c) RNG_m"

definition scaleToRange :: "number \<Rightarrow> number \<Rightarrow> number \<Rightarrow> number" where
  "scaleToRange h mn mx = fadd mn (fmul (fdiv h (fsub RNG_m 1)) (fsub mx mn))"

text \<open>Reading an array at a computed index: outside the array the result is \<open>undefined\<close>.\<close>

definition array_get :: "'a list \<Rightarrow> int \<Rightarrow> 'a option" where
  "array_get xs i = (if 0 \<le> i \<and> i < int (length xs) then Some (xs ! nat i) else None)"

definition instruments :: "string list" where
  "instruments =
     [''bass-electric'', ''violin'', ''piano'', ''trumpet'', ''saxophone'', ''trombone'',
      ''flute'']"

definition generateRandomNote :: "number \<Rightarrow> BgCircle" where
  "generateRandomNote seed =
     (let instrumentIndex = \<lfloor>scaleToRange seed 0 (of_nat (length instruments))\<rfloor>;
          instrumentName' = array_get instruments instrumentIndex;
          velocity' = of_int \<lfloor>scaleToRange seed 30 127\<rfloor>;
          pitch' = of_int \<lfloor>scaleToRange seed 30 90\<rfloor>;
          length' = scaleToRange seed 0 (1 / 2);
          randomNoteData =
            \<lparr>userPlayed = False, instrumentName = instrumentName', velocity = velocity',
             pitch = pitch', start_n = 0, end_n = length'\<rparr>
      in \<lparr>cy_bg = TARGET_CY, note_bg = randomNoteData\<rparr>)"

subsection \<open>List helpers\<close>

definition not_f :: "('a \<Rightarrow> bool) \<Rightarrow> 'a \<Rightarrow> bool" where
  "not_f f x = (\<not> f x)"

definition elem :: "('a \<Rightarrow> 'a \<Rightarrow> bool) \<Rightarrow> 'a list \<Rightarrow> 'a \<Rightarrow> bool" where
  "elem eq a e = list_ex (eq e) a"

definition except :: "('a \<Rightarrow> 'a \<Rightarrow> bool) \<Rightarrow> 'a list \<Rightarrow> 'a list \<Rightarrow> 'a list" where
  "except eq a b = filter (not_f (elem eq b)) a"

subsection \<open>Decimal text of a counter\<close>

text \<open>
  \<open>"circle" + s.objCount\<close> appends the decimal text of the counter: digits without leading
  zeros (the counter is a natural number below \<open>10 ^ 21\<close>, where JavaScript prints plain
  digits).
\<close>

definition digit :: "nat \<Rightarrow> char" where
  "digit d = char_of (48 + d)"

fun show_nat :: "nat \<Rightarrow> string" where
  "show_nat n = (if n < 10 then [digit n] else show_nat (n div 10) @ [digit (n mod 10)])"

section \<open>State processing\<close>

definition initialState :: State where
  "initialState =
     \<lparr>backgroundCircles = [], circles = [], playedCircles = [], tails = [],
      finishedTails = [], exit = [], objCount = STARTING_OBJ_COUNT, score = STARTING_SCORE,
      consecutiveHits = BASE_CONSECUTIVE_HITS, multiplier = BASE_MULTIPLIER,
      randomNumber = STARTING_RANDOM_NUMBER, gameEnd = False\<rparr>"

subsection \<open>Helper functions\<close>

text \<open>A template string prints an absent value as the text \<open>undefined\<close>.\<close>

definition template :: "string option \<Rightarrow> string" where
  "template v = (case v of Some t \<Rightarrow> t | None \<Rightarrow> ''undefined'')"

text \<open>
  The column index is \<open>Math.min(Math.floor((pitch - minPitch) / intervalSize), 3)\<close>. With
  \<open>intervalSize = 0\<close> the quotient of doubles is \<open>+Infinity\<close> (index 3), \<open>-Infinity\<close> or
  \<open>NaN\<close> (no index); an index outside the arrays reads \<open>undefined\<close>.
\<close>

definition getColumnAndColour ::
  "NoteData \<Rightarrow> number \<Rightarrow> number \<Rightarrow> string option \<times> string option" where
  "getColumnAndColour noteData minPitch maxPitch =
     (let columnArray = [''20%'', ''40%'', ''60%'', ''80%''];
          colourArray = [''green'', ''red'', ''blue'', ''yellow''];
          intervalSize = (maxPitch - minPitch) / 4;
          index =
            (if intervalSize = 0
             then (if 0 < pitch noteData - minPitch then Some 3 else None)
             else Some (min \<lfloor>(pitch noteData - minPitch) / intervalSize\<rfloor> 3))
      in case index of
           None \<Rightarrow> (None, None)
         | Some i \<Rightarrow> (array_get columnArray i, array_get colourArray i))"

definition isCircleAligned :: "Circle \<Rightarrow> string \<Rightarrow> bool" where
  "isCircleAligned c col \<longleftrightarrow>
     cx c = col \<and> cy c \<ge> TARGET_CY - TARGET_RANGE \<and> cy c \<le> TARGET_CY + TARGET_RANGE"

definition isTailEndAligned :: "Tail \<Rightarrow> string \<Rightarrow> bool" where
  "isTailEndAligned t col \<longleftrightarrow>
     x1 t = col \<and> y2 t \<ge> TARGET_CY - TARGET_RANGE \<and> y2 t \<le> TARGET_CY"

text \<open>The result is (alignedCircles, alignedTailCircles, remainingCircles).\<close>

definition initialisePressAndHoldKey ::
  "State \<Rightarrow> ColumnKey \<Rightarrow> Circle list \<times> Circle list \<times> Circle list" where
  "initialisePressAndHoldKey s key =
     (let col = keyToColumn key;
          alignedCircles = filter (\<lambda>c. isCircleAligned c col) (circles s);
          alignedTailCircles = filter hasTail alignedCircles;
          remainingCircles = filter (\<lambda>c. \<not> isCircleAligned c col) (circles s)
      in (alignedCircles, alignedTailCircles, remainingCircles))"

text \<open>
  \<open>x.toFixed(1)\<close> prints the multiple of one tenth nearest to \<open>x\<close>, the one of larger
  magnitude when two are equally near; \<open>Number\<close> reads the text back.
\<close>

definition toFixed1 :: "number \<Rightarrow> number" where
  "toFixed1 x =
     (if x < 0 then - (of_int \<lfloor>- x * 10 + 1 / 2\<rfloor> / 10) else of_int \<lfloor>x * 10 + 1 / 2\<rfloor> / 10)"

definition calculateNewMultiplier :: "int \<Rightarrow> number" where
  "calculateNewMultiplier newConsecutiveHits =
     toFixed1
       (BASE_MULTIPLIER +
        of_int \<lfloor>of_int newConsecutiveHits / HITS_PER_MULTIPLIER_INCREASE\<rfloor> *
        MULTIPLIER_INCREASE)"

text \<open>The result is (newConsecutiveHits, newMultiplier).\<close>

definition updateHitsAndMultiplier :: "bool \<Rightarrow> int \<Rightarrow> int \<Rightarrow> int \<times> number" where
  "updateHitsAndMultiplier isMiss consecutiveHits' additionalHits =
     (let newConsecutiveHits =
            (if isMiss then BASE_CONSECUTIVE_HITS else consecutiveHits' + additionalHits);
          newMultiplier =
            (if isMiss then BASE_MULTIPLIER else calculateNewMultiplier newConsecutiveHits)
      in (newConsecutiveHits, newMultiplier))"

text \<open>The result is (newRandomNumber, newBgCircles).\<close>

definition addRandomBgCircle ::
  "bool \<Rightarrow> number \<Rightarrow> BgCircle list \<Rightarrow> number \<times> BgCircle list" where
  "addRandomBgCircle isMiss randomNumber' backgroundCircles' =
     (let newRandomNumber = (if isMiss then hash randomNumber' else randomNumber');
          newBgCircles =
            (if isMiss then backgroundCircles' @ [generateRandomNote newRandomNumber]
             else backgroundCircles')
      in (newRandomNumber, newBgCircles))"

subsection \<open>Tick\<close>

definition isCircleExpired :: "Circle \<Rightarrow> bool" where
  "isCircleExpired c \<longleftrightarrow> cy c > EXPIRE_LIMIT"

definition isMissed :: "Circle \<Rightarrow> bool" where
  "isMissed c \<longleftrightarrow> cy c > TARGET_CY + TARGET_RANGE"

definition isTailExpired :: "Tail \<Rightarrow> bool" where
  "isTailExpired t \<longleftrightarrow> y2 t > EXPIRE_LIMIT"

definition isTailFullyPlayed :: "Tail \<Rightarrow> bool" where
  "isTailFullyPlayed t \<longleftrightarrow> y2 t = y1 t"

definition moveCircle :: "Circle \<Rightarrow> Circle" where
  "moveCircle c = c\<lparr>cy := cy c + MOVEMENT\<rparr>"

definition moveCircle_bg :: "BgCircle \<Rightarrow> BgCircle" where
  "moveCircle_bg c = c\<lparr>cy_bg := cy_bg c + MOVEMENT\<rparr>"

definition incrementY :: "int \<Rightarrow> int" where
  "incrementY y = y + MOVEMENT"

definition movePlayedTail :: "Tail \<Rightarrow> Tail" where
  "movePlayedTail t =
     t\<lparr>y1 := (if y1 t \<ge> TARGET_CY then y1 t else incrementY (y1 t)),
       y2 := (if y2 t = y1 t then y2 t else incrementY (y2 t))\<rparr>"

definition moveUnplayedTail :: "Tail \<Rightarrow> Tail" where
  "moveUnplayedTail t = t\<lparr>y1 := incrementY (y1 t), y2 := incrementY (y2 t)\<rparr>"

definition moveTail :: "Tail \<Rightarrow> Tail" where
  "moveTail t = (if isPlayed t then movePlayedTail t else moveUnplayedTail t)"

definition Tick_apply :: "number \<Rightarrow> State \<Rightarrow> State" where
  "Tick_apply elapsed s =
     (let expiredCircles = filter isCircleExpired (circles s);
          activeCircles = filter (not_f isCircleExpired) (circles s);
          missedCircles = filter isMissed (circles s);
          expiredTails = filter isTailExpired (tails s);
          fullyPlayedTails = filter isTailFullyPlayed (tails s);
          activeTails =
            map (\<lambda>t. t\<lparr>isStartNote := False\<rparr>)
              (filter (not_f isTailFullyPlayed) (filter (not_f isTailExpired) (tails s)));
          isMissedCircles = (length missedCircles > 0);
          (newConsecutiveHits, newMultiplier) =
            updateHitsAndMultiplier isMissedCircles (consecutiveHits s)
              (int (length fullyPlayedTails));
          newScore =
            score s + of_nat (length fullyPlayedTails) * SCORE_INCREASE * newMultiplier;
          newBgCircles =
            filter (\<lambda>c. cy_bg c \<le> TARGET_CY) (map moveCircle_bg (backgroundCircles s));
          newCircles = map moveCircle activeCircles;
          newTails = map moveTail activeTails
      in s\<lparr>backgroundCircles := newBgCircles,
           circles := newCircles,
           playedCircles := [],
           tails := newTails,
           finishedTails := fullyPlayedTails,
           score := newScore,
           exit := map Inl expiredCircles @ map Inr expiredTails,
           consecutiveHits := newConsecutiveHits,
           multiplier := newMultiplier\<rparr>)"

subsection \<open>CreateCircle and CreateBgCircle\<close>

text \<open>\<open>Math.round\<close> rounds to the nearest integer, halves upwards.\<close>

definition Math_round :: "number \<Rightarrow> int" where
  "Math_round x = \<lfloor>x + 1 / 2\<rfloor>"

definition CreateCircle_apply :: "NoteData \<Rightarrow> number \<Rightarrow> number \<Rightarrow> State \<Rightarrow> State" where
  "CreateCircle_apply noteData minPitch maxPitch s =
     (let (column, colour) = getColumnAndColour noteData minPitch maxPitch;
          newCircle =
            \<lparr>id_c = ''circle'' @ show_nat (objCount s),
             r_c = RADIUS,
             cx = template column,
             cy = START_CY,
             style_c = ''fill: '' @ template colour,
             class_c = ''playable'',
             note_c = noteData,
             hasTail = (end_n noteData - start_n noteData > DURATION_FOR_TAIL)\<rparr>;
          tailLength =
            Math_round
              (((end_n noteData - start_n noteData) * 1000 * of_int MOVEMENT) / TICK_RATE_MS);
          updatedTails =
            (if hasTail newCircle
             then tails s @
                  [\<lparr>id_t = ''tail'' @ show_nat (objCount s),
                    x1 = template column,
                    y1 = START_CY,
                    x2 = template column,
                    y2 = START_CY - tailLength,
                    style_t =
                      ''stroke:'' @ template colour @ '';stroke-width:'' @ show_nat TAIL_WIDTH,
                    isPlayed = False,
                    isStartNote = False,
                    circle = newCircle,
                    class_t = ''playable''\<rparr>]
             else tails s)
      in s\<lparr>circles := circles s @ [newCircle],
           tails := updatedTails,
           objCount := objCount s + 1\<rparr>)"

definition CreateBgCircle_apply :: "NoteData \<Rightarrow> State \<Rightarrow> State" where
  "CreateBgCircle_apply noteData s =
     s\<lparr>backgroundCircles := backgroundCircles s @ [\<lparr>cy_bg = START_CY, note_bg = noteData\<rparr>]\<rparr>"

subsection \<open>PressKey, HoldKey, ReleaseKey\<close>

definition PressKey_apply :: "ColumnKey \<Rightarrow> State \<Rightarrow> State" where
  "PressKey_apply key s =
     (let (alignedCircles, alignedTailCircles, remainingCircles) =
            initialisePressAndHoldKey s key
      in if length alignedTailCircles > 0 then s
         else
           let isMiss = (length alignedCircles = 0);
               (newConsecutiveHits, newMultiplier) =
                 updateHitsAndMultiplier isMiss (consecutiveHits s) 1;
               newScore =
                 score s + of_nat (length alignedCircles) * SCORE_INCREASE * newMultiplier;
               (newRandomNumber, newBgCircles) =
                 addRandomBgCircle isMiss (randomNumber s) (backgroundCircles s)
           in s\<lparr>circles := remainingCircles,
                playedCircles := alignedCircles,
                score := newScore,
                backgroundCircles := newBgCircles,
                consecutiveHits := newConsecutiveHits,
                multiplier := newMultiplier,
                randomNumber := newRandomNumber\<rparr>)"

definition HoldKey_apply :: "ColumnKey \<Rightarrow> State \<Rightarrow> State" where
  "HoldKey_apply key s =
     (let (alignedCircles, alignedTailCircles, remainingCircles) =
            initialisePressAndHoldKey s key
      in if length alignedTailCircles = 0 then s
         else
           let alignedTails =
                 filter (\<lambda>t. list_ex (\<lambda>c. id_c c = id_c (circle t)) alignedTailCircles)
                   (tails s);
               playedTails = map (\<lambda>t. t\<lparr>isPlayed := True, isStartNote := True\<rparr>) alignedTails;
               remainingTails = except (\<lambda>a b. id_t a = id_t b) (tails s) playedTails
           in s\<lparr>circles := remainingCircles,
                playedCircles := playedCircles s @ alignedTailCircles,
                tails := playedTails @ remainingTails\<rparr>)"

definition ReleaseKey_apply :: "ColumnKey \<Rightarrow> State \<Rightarrow> State" where
  "ReleaseKey_apply key s =
     (let col = keyToColumn key;
          playedTails = filter (\<lambda>t. x1 t = col) (filter isPlayed (tails s))
      in if length playedTails = 0 \<and> length (finishedTails s) = 0 then s
         else
           let updatedPlayedTails =
                 map (\<lambda>t. t\<lparr>isPlayed := (if isTailEndAligned t col then True else False)\<rparr>)
                   playedTails;
               alignedPlayedTails = filter (\<lambda>t. isTailEndAligned t col) updatedPlayedTails;
               isMiss = (length alignedPlayedTails = 0);
               (newConsecutiveHits, newMultiplier) =
                 updateHitsAndMultiplier isMiss (consecutiveHits s) 0;
               remainingTails =
                 filter (\<lambda>t. \<not> list_ex (\<lambda>playedTail. id_t playedTail = id_t t) playedTails)
                   (tails s);
               (newRandomNumber, newBgCircles) =
                 addRandomBgCircle isMiss (randomNumber s) (backgroundCircles s)
           in s\<lparr>tails := updatedPlayedTails @ remainingTails,
                backgroundCircles := newBgCircles,
                consecutiveHits := newConsecutiveHits,
                multiplier := newMultiplier,
                randomNumber := newRandomNumber\<rparr>)"

subsection \<open>EndGame and the reducer\<close>

definition EndGame_apply :: "State \<Rightarrow> State" where
  "EndGame_apply s = s\<lparr>gameEnd := True\<rparr>"

datatype Action =
  Tick number
| CreateCircle NoteData number number
| CreateBgCircle NoteData
| PressKey ColumnKey
| HoldKey ColumnKey
| ReleaseKey ColumnKey
| EndGame

fun Action_apply :: "Action \<Rightarrow> State \<Rightarrow> State" where
  "Action_apply (Tick elapsed) s = Tick_apply elapsed s"
| "Action_apply (CreateCircle noteData minPitch maxPitch) s =
     CreateCircle_apply noteData minPitch maxPitch s"
| "Action_apply (CreateBgCircle noteData) s = CreateBgCircle_apply noteData s"
| "Action_apply (PressKey key) s = PressKey_apply key s"
| "Action_apply (HoldKey key) s = HoldKey_apply key s"
| "Action_apply (ReleaseKey key) s = ReleaseKey_apply key s"
| "Action_apply EndGame s = EndGame_apply s"

definition reduceState :: "State \<Rightarrow> Action \<Rightarrow> State" where
  "reduceState s action =
     (let reducedState = Action_apply action s
      in if gameEnd s then s else reducedState)"

section \<open>Specification-side definitions and example data\<close>


text \<open>Concrete notes, circles, tails and states used to instantiate the theorems.\<close>

definition note0 :: NoteData where
  "note0 =
     \<lparr>userPlayed = True, instrumentName = Some ''piano'', velocity = 80, pitch = 60,
      start_n = 0, end_n = 1 / 2\<rparr>"

definition mkCircle :: "string \<Rightarrow> string \<Rightarrow> int \<Rightarrow> bool \<Rightarrow> Circle" where
  "mkCircle i col y tailed =
     \<lparr>id_c = i, r_c = RADIUS, cx = col, cy = y, style_c = ''fill: green'',
      class_c = ''playable'', note_c = note0, hasTail = tailed\<rparr>"

definition mkTail :: "string \<Rightarrow> string \<Rightarrow> int \<Rightarrow> int \<Rightarrow> bool \<Rightarrow> Tail" where
  "mkTail i col a b p =
     \<lparr>id_t = i, x1 = col, y1 = a, x2 = col, y2 = b,
      style_t = ''stroke:green;stroke-width:10'', isPlayed = p, isStartNote = False,
      circle = mkCircle ''circle0'' col a True, class_t = ''playable''\<rparr>"

text \<open>
  A state with a combo of 12, two background circles, one circle past the target range in
  column 40 percent, no active tail, and one tail finished in the last frame.
\<close>

definition missState :: State where
  "missState =
     initialState
       \<lparr>backgroundCircles := [\<lparr>cy_bg = 10, note_bg = note0\<rparr>, \<lparr>cy_bg = 350, note_bg = note0\<rparr>],
        circles := [mkCircle ''circle1'' ''40%'' 380 False],
        finishedTails := [mkTail ''tail0'' ''20%'' 350 350 True],
        consecutiveHits := 12,
        multiplier := 12 / 10\<rparr>"









text \<open>
  Repeated ticks; the clock numbers them from 0. A state whose only tail is being played,
  with leading end \<open>a\<close> and trailing end \<open>b\<close>.
\<close>

fun ticks :: "nat \<Rightarrow> State \<Rightarrow> State" where
  "ticks 0 s = s"
| "ticks (Suc k) s = Tick_apply (of_nat k) (ticks k s)"

definition tailState :: "int \<Rightarrow> int \<Rightarrow> State" where
  "tailState a b = initialState\<lparr>tails := [mkTail ''tail0'' ''20%'' a b True]\<rparr>"

section \<open>Verification\<close>

declare show_nat.simps [simp del]

named_theorems const_defs \<open>values of the program's constants\<close>

lemmas [const_defs] =
  CANVAS_WIDTH_def CANVAS_HEIGHT_def TICK_RATE_MS_def STARTING_OBJ_COUNT_def TARGET_CY_def
  TARGET_RANGE_def EXPIRE_LIMIT_def STARTING_SCORE_def SCORE_INCREASE_def
  BASE_CONSECUTIVE_HITS_def BASE_MULTIPLIER_def MULTIPLIER_INCREASE_def
  HITS_PER_MULTIPLIER_INCREASE_def START_CY_def TAIL_WIDTH_def MOVEMENT_def
  DURATION_FOR_TAIL_def

subsection \<open>The reducer after the end of the game\<close>

lemma reduceState_ended: "gameEnd s \<Longrightarrow> reduceState s a = s"
  by (simp add: reduceState_def)

lemma foldl_reduceState_ended: "gameEnd s \<Longrightarrow> foldl reduceState s as = s"
  by (induction as) (simp_all add: reduceState_ended)

text \<open>
  Claim C1. For every state whose \<open>gameEnd\<close> flag is set and every action (the action type
  has exactly the seven kinds Tick, CreateCircle, CreateBgCircle, PressKey, HoldKey,
  ReleaseKey, EndGame), \<open>reduceState\<close> returns the state unchanged. The flag is read from the
  state before the action, so the state stays the same under any further sequence of
  actions; and the \<open>EndGame\<close> action itself, applied to the same state with the flag still
  unset, is not refused: it produces the ended state.
\<close>

theorem reduceState_terminal:
  "gameEnd s \<Longrightarrow>
     reduceState s a = s \<and>
     foldl reduceState s as = s \<and>
     reduceState (s\<lparr>gameEnd := False\<rparr>) EndGame = s"
  by (simp add: reduceState_ended foldl_reduceState_ended)
     (simp add: reduceState_def EndGame_apply_def)

theorem reduceState_terminal_witness:
  "gameEnd (EndGame_apply missState) \<and>
   reduceState (EndGame_apply missState) (Tick 0) = EndGame_apply missState \<and>
   foldl reduceState (EndGame_apply missState) [PressKey KeyH, CreateBgCircle note0, EndGame] =
     EndGame_apply missState \<and>
   reduceState missState EndGame = EndGame_apply missState"
proof -
  have ended: "gameEnd (EndGame_apply missState)"
    by (simp add: EndGame_apply_def)
  have unset: "(EndGame_apply missState)\<lparr>gameEnd := False\<rparr> = missState"
    by (simp add: EndGame_apply_def missState_def initialState_def)
  show ?thesis
    using ended
      reduceState_terminal [OF ended, of "Tick 0" "[PressKey KeyH, CreateBgCircle note0, EndGame]"]
    by (simp add: unset)
qed

subsection \<open>The multiplier\<close>









subsection \<open>Misses\<close>

lemma updateHitsAndMultiplier_miss: "updateHitsAndMultiplier True h a = (0, 1)"
  by (simp add: updateHitsAndMultiplier_def BASE_CONSECUTIVE_HITS_def BASE_MULTIPLIER_def)

lemma addRandomBgCircle_miss:
  "addRandomBgCircle True rn bg = (hash rn, bg @ [generateRandomNote (hash rn)])"
  by (simp add: addRandomBgCircle_def Let_def)

lemma isTailEndAligned_isPlayed_update [simp]:
  "isTailEndAligned (t\<lparr>isPlayed := b\<rparr>) col = isTailEndAligned t col"
  by (simp add: isTailEndAligned_def)

lemma filter_aligned_updated:
  "filter (\<lambda>t. isTailEndAligned t col) (map (\<lambda>t. t\<lparr>isPlayed := f t\<rparr>) ts) = [] \<longleftrightarrow>
   filter (\<lambda>t. isTailEndAligned t col) ts = []"
  by (simp add: filter_empty_conv)

lemma PressKey_apply_miss:
  assumes "filter (\<lambda>c. isCircleAligned c (keyToColumn key)) (circles s) = []"
  shows "PressKey_apply key s =
         s\<lparr>circles := filter (\<lambda>c. \<not> isCircleAligned c (keyToColumn key)) (circles s),
           playedCircles := [],
           score := score s,
           backgroundCircles := backgroundCircles s @ [generateRandomNote (hash (randomNumber s))],
           consecutiveHits := 0,
           multiplier := 1,
           randomNumber := hash (randomNumber s)\<rparr>"
proof -
  have "filter hasTail (filter (\<lambda>c. isCircleAligned c (keyToColumn key)) (circles s)) = []"
    using assms by simp
  with assms show ?thesis
    by (simp add: PressKey_apply_def initialisePressAndHoldKey_def Let_def
        updateHitsAndMultiplier_miss addRandomBgCircle_miss del: filter_filter)
qed

lemma ReleaseKey_apply_miss:
  assumes "filter (\<lambda>t. x1 t = keyToColumn key) (filter isPlayed (tails s)) \<noteq> [] \<or>
           finishedTails s \<noteq> []"
    and "filter (\<lambda>t. isTailEndAligned t (keyToColumn key))
           (filter (\<lambda>t. x1 t = keyToColumn key) (filter isPlayed (tails s))) = []"
  shows "consecutiveHits (ReleaseKey_apply key s) = 0 \<and>
         multiplier (ReleaseKey_apply key s) = 1 \<and>
         randomNumber (ReleaseKey_apply key s) = hash (randomNumber s) \<and>
         backgroundCircles (ReleaseKey_apply key s) =
           backgroundCircles s @ [generateRandomNote (hash (randomNumber s))]"
proof -
  let ?col = "keyToColumn key"
  let ?played = "filter (\<lambda>t. x1 t = ?col) (filter isPlayed (tails s))"
  have noreturn: "\<not> (length ?played = 0 \<and> length (finishedTails s) = 0)"
    using assms(1) by auto
  have miss: "length (filter (\<lambda>t. isTailEndAligned t ?col)
      (map (\<lambda>t. t\<lparr>isPlayed := (if isTailEndAligned t ?col then True else False)\<rparr>) ?played)) = 0"
    using assms(2) filter_aligned_updated [of ?col _ ?played] by simp
  show ?thesis
    unfolding ReleaseKey_apply_def Let_def
    using noreturn miss
    by (simp add: updateHitsAndMultiplier_miss addRandomBgCircle_miss)
qed

lemma Tick_apply_miss:
  assumes "filter isMissed (circles s) \<noteq> []"
  shows "consecutiveHits (Tick_apply elapsed s) = 0 \<and>
         multiplier (Tick_apply elapsed s) = 1 \<and>
         randomNumber (Tick_apply elapsed s) = randomNumber s \<and>
         backgroundCircles (Tick_apply elapsed s) =
           filter (\<lambda>c. cy_bg c \<le> TARGET_CY) (map moveCircle_bg (backgroundCircles s))"
  using assms
  by (simp add: Tick_apply_def Let_def updateHitsAndMultiplier_miss)

lemma missState_facts:
  "filter (\<lambda>c. isCircleAligned c (keyToColumn KeyH)) (circles missState) = []"
  "filter (\<lambda>t. x1 t = keyToColumn KeyH) (filter isPlayed (tails missState)) = []"
  "finishedTails missState \<noteq> []"
  "tails missState = []"
  "filter isMissed (circles missState) \<noteq> []"
  "consecutiveHits missState = 12" "multiplier missState = 12 / 10"
  by (simp_all add: missState_def initialState_def mkCircle_def mkTail_def isCircleAligned_def
      isMissed_def const_defs)

text \<open>
  Claim C3. Whatever the combo and the multiplier were, each path that computes a miss
  ends with \<open>consecutiveHits = 0\<close> and \<open>multiplier = 1\<close>: PressKey when no circle is aligned
  with the key's column; ReleaseKey when it does not return early (a played tail in the
  column or a finished tail exists) and no played tail of the column has its end aligned;
  Tick when at least one circle is past the target range. The helper
  \<open>updateHitsAndMultiplier\<close> returns \<open>(0, 1)\<close> on a miss for every prior count.
\<close>

theorem miss_resets_combo:
  "(filter (\<lambda>c. isCircleAligned c (keyToColumn key)) (circles s) = [] \<longrightarrow>
      consecutiveHits (PressKey_apply key s) = 0 \<and> multiplier (PressKey_apply key s) = 1) \<and>
   ((filter (\<lambda>t. x1 t = keyToColumn key) (filter isPlayed (tails s)) \<noteq> [] \<or>
     finishedTails s \<noteq> []) \<and>
    filter (\<lambda>t. isTailEndAligned t (keyToColumn key))
      (filter (\<lambda>t. x1 t = keyToColumn key) (filter isPlayed (tails s))) = [] \<longrightarrow>
      consecutiveHits (ReleaseKey_apply key s) = 0 \<and>
      multiplier (ReleaseKey_apply key s) = 1) \<and>
   (filter isMissed (circles s) \<noteq> [] \<longrightarrow>
      consecutiveHits (Tick_apply elapsed s) = 0 \<and> multiplier (Tick_apply elapsed s) = 1) \<and>
   updateHitsAndMultiplier True h a = (0, 1)"
  using ReleaseKey_apply_miss [of key s] Tick_apply_miss [of s elapsed]
  by (simp add: PressKey_apply_miss updateHitsAndMultiplier_miss)

theorem miss_resets_combo_witness:
  "filter (\<lambda>c. isCircleAligned c (keyToColumn KeyH)) (circles missState) = [] \<and>
   finishedTails missState \<noteq> [] \<and>
   filter (\<lambda>t. isTailEndAligned t (keyToColumn KeyH))
      (filter (\<lambda>t. x1 t = keyToColumn KeyH) (filter isPlayed (tails missState))) = [] \<and>
   filter isMissed (circles missState) \<noteq> [] \<and>
   consecutiveHits missState = 12 \<and>
   multiplier missState = 12 / 10 \<and>
   consecutiveHits (PressKey_apply KeyH missState) = 0 \<and>
   multiplier (PressKey_apply KeyH missState) = 1 \<and>
   consecutiveHits (ReleaseKey_apply KeyH missState) = 0 \<and>
   multiplier (ReleaseKey_apply KeyH missState) = 1 \<and>
   consecutiveHits (Tick_apply 0 missState) = 0 \<and>
   multiplier (Tick_apply 0 missState) = 1"
  using miss_resets_combo [of KeyH missState 0 12 1] missState_facts
  by simp

text \<open>
  Claim C9. When no tail in the released key's column is being played but the list of
  tails finished in the last frame is not empty, ReleaseKey does not return the state
  unchanged: it computes a miss, so the combo is reset to 0 and the multiplier to 1, the
  seed is replaced by its hash and one filler background circle generated from the new seed
  is appended.
\<close>

theorem ReleaseKey_finished_only_is_miss:
  assumes "\<forall>t \<in> set (tails s). x1 t = keyToColumn key \<longrightarrow> \<not> isPlayed t"
    and "finishedTails s \<noteq> []"
  shows "ReleaseKey_apply key s \<noteq> s \<and>
         consecutiveHits (ReleaseKey_apply key s) = 0 \<and>
         multiplier (ReleaseKey_apply key s) = 1 \<and>
         randomNumber (ReleaseKey_apply key s) = hash (randomNumber s) \<and>
         backgroundCircles (ReleaseKey_apply key s) =
           backgroundCircles s @ [generateRandomNote (hash (randomNumber s))]"
proof -
  have played: "filter (\<lambda>t. x1 t = keyToColumn key) (filter isPlayed (tails s)) = []"
    using assms(1) by (auto simp: filter_empty_conv)
  have res: "consecutiveHits (ReleaseKey_apply key s) = 0 \<and>
         multiplier (ReleaseKey_apply key s) = 1 \<and>
         randomNumber (ReleaseKey_apply key s) = hash (randomNumber s) \<and>
         backgroundCircles (ReleaseKey_apply key s) =
           backgroundCircles s @ [generateRandomNote (hash (randomNumber s))]"
    by (rule ReleaseKey_apply_miss) (simp_all only: played assms(2) filter.simps simp_thms)
  then have "length (backgroundCircles (ReleaseKey_apply key s)) \<noteq> length (backgroundCircles s)"
    by simp
  then have "ReleaseKey_apply key s \<noteq> s"
    by auto
  with res show ?thesis by simp
qed

theorem ReleaseKey_finished_only_is_miss_witness:
  "filter (\<lambda>t. x1 t = keyToColumn KeyH) (filter isPlayed (tails missState)) = [] \<and>
   finishedTails missState \<noteq> [] \<and>
   consecutiveHits missState = 12 \<and>
   ReleaseKey_apply KeyH missState \<noteq> missState \<and>
   consecutiveHits (ReleaseKey_apply KeyH missState) = 0 \<and>
   multiplier (ReleaseKey_apply KeyH missState) = 1 \<and>
   randomNumber (ReleaseKey_apply KeyH missState) = hash (randomNumber missState) \<and>
   backgroundCircles (ReleaseKey_apply KeyH missState) =
     backgroundCircles missState @ [generateRandomNote (hash (randomNumber missState))]"
proof -
  have h1: "\<forall>t \<in> set (tails missState). x1 t = keyToColumn KeyH \<longrightarrow> \<not> isPlayed t"
    by (simp add: missState_facts)
  have h2: "finishedTails missState \<noteq> []"
    by (simp add: missState_facts)
  show ?thesis
    using h2 ReleaseKey_finished_only_is_miss [OF h1 h2] missState_facts(2,6)
    by simp
qed

lemma missState_bg:
  "backgroundCircles missState = [\<lparr>cy_bg = 10, note_bg = note0\<rparr>, \<lparr>cy_bg = 350, note_bg = note0\<rparr>]"
  "randomNumber missState = STARTING_RANDOM_NUMBER"
  "\<exists>c \<in> set (circles missState). cy c > TARGET_CY + TARGET_RANGE"
  by (simp_all add: missState_def initialState_def mkCircle_def const_defs)

text \<open>
  Claim C10. When Tick finds a circle past the target range it resets the combo and the
  multiplier, but the seed stays as it was and no filler is appended: the background circles
  after the Tick are the prior ones, moved and filtered. A miss computed by PressKey or by
  ReleaseKey, in contrast, replaces the seed by its hash and appends one filler.
\<close>

theorem Tick_miss_adds_no_filler:
  "((\<exists>c \<in> set (circles s). cy c > TARGET_CY + TARGET_RANGE) \<longrightarrow>
     consecutiveHits (Tick_apply elapsed s) = 0 \<and>
     multiplier (Tick_apply elapsed s) = 1 \<and>
     randomNumber (Tick_apply elapsed s) = randomNumber s \<and>
     backgroundCircles (Tick_apply elapsed s) =
       filter (\<lambda>c. cy_bg c \<le> TARGET_CY) (map moveCircle_bg (backgroundCircles s)) \<and>
     length (backgroundCircles (Tick_apply elapsed s)) \<le> length (backgroundCircles s)) \<and>
   (filter (\<lambda>c. isCircleAligned c (keyToColumn key)) (circles s) = [] \<longrightarrow>
     randomNumber (PressKey_apply key s) = hash (randomNumber s) \<and>
     backgroundCircles (PressKey_apply key s) =
       backgroundCircles s @ [generateRandomNote (hash (randomNumber s))]) \<and>
   ((filter (\<lambda>t. x1 t = keyToColumn key) (filter isPlayed (tails s)) \<noteq> [] \<or>
     finishedTails s \<noteq> []) \<and>
    filter (\<lambda>t. isTailEndAligned t (keyToColumn key))
      (filter (\<lambda>t. x1 t = keyToColumn key) (filter isPlayed (tails s))) = [] \<longrightarrow>
     randomNumber (ReleaseKey_apply key s) = hash (randomNumber s) \<and>
     backgroundCircles (ReleaseKey_apply key s) =
       backgroundCircles s @ [generateRandomNote (hash (randomNumber s))])"
proof (intro conjI impI)
  assume "\<exists>c \<in> set (circles s). cy c > TARGET_CY + TARGET_RANGE"
  then have missed: "filter isMissed (circles s) \<noteq> []"
    by (auto simp: filter_empty_conv isMissed_def)
  note tick = Tick_apply_miss [OF missed, of elapsed]
  show "consecutiveHits (Tick_apply elapsed s) = 0" "multiplier (Tick_apply elapsed s) = 1"
    "randomNumber (Tick_apply elapsed s) = randomNumber s"
    "backgroundCircles (Tick_apply elapsed s) =
       filter (\<lambda>c. cy_bg c \<le> TARGET_CY) (map moveCircle_bg (backgroundCircles s))"
    using tick by simp_all
  show "length (backgroundCircles (Tick_apply elapsed s)) \<le> length (backgroundCircles s)"
    using tick by (simp add: le_trans [OF length_filter_le])
next
  assume "filter (\<lambda>c. isCircleAligned c (keyToColumn key)) (circles s) = []"
  then show "randomNumber (PressKey_apply key s) = hash (randomNumber s)"
    "backgroundCircles (PressKey_apply key s) =
       backgroundCircles s @ [generateRandomNote (hash (randomNumber s))]"
    by (simp_all add: PressKey_apply_miss)
next
  assume a: "(filter (\<lambda>t. x1 t = keyToColumn key) (filter isPlayed (tails s)) \<noteq> [] \<or>
     finishedTails s \<noteq> []) \<and>
    filter (\<lambda>t. isTailEndAligned t (keyToColumn key))
      (filter (\<lambda>t. x1 t = keyToColumn key) (filter isPlayed (tails s))) = []"
  from ReleaseKey_apply_miss [OF conjunct1 [OF a] conjunct2 [OF a]]
  show "randomNumber (ReleaseKey_apply key s) = hash (randomNumber s)"
    "backgroundCircles (ReleaseKey_apply key s) =
       backgroundCircles s @ [generateRandomNote (hash (randomNumber s))]"
    by simp_all
qed

theorem Tick_miss_adds_no_filler_witness:
  "(\<exists>c \<in> set (circles missState). cy c > TARGET_CY + TARGET_RANGE) \<and>
   filter (\<lambda>c. isCircleAligned c (keyToColumn KeyH)) (circles missState) = [] \<and>
   finishedTails missState \<noteq> [] \<and>
   filter (\<lambda>t. isTailEndAligned t (keyToColumn KeyH))
      (filter (\<lambda>t. x1 t = keyToColumn KeyH) (filter isPlayed (tails missState))) = [] \<and>
   consecutiveHits (Tick_apply 0 missState) = 0 \<and>
   multiplier (Tick_apply 0 missState) = 1 \<and>
   randomNumber (Tick_apply 0 missState) = STARTING_RANDOM_NUMBER \<and>
   backgroundCircles (Tick_apply 0 missState) = [\<lparr>cy_bg = 11, note_bg = note0\<rparr>] \<and>
   randomNumber (PressKey_apply KeyH missState) = hash STARTING_RANDOM_NUMBER \<and>
   length (backgroundCircles (PressKey_apply KeyH missState)) = 3 \<and>
   randomNumber (ReleaseKey_apply KeyH missState) = hash STARTING_RANDOM_NUMBER \<and>
   length (backgroundCircles (ReleaseKey_apply KeyH missState)) = 3"
  using Tick_miss_adds_no_filler [of missState 0 KeyH] missState_facts missState_bg
  by (simp add: moveCircle_bg_def const_defs)

subsection \<open>Creating a background circle\<close>



subsection \<open>A clean hit\<close>






subsection \<open>Tail completion\<close>

lemma Tick_apply_tails:
  "tails (Tick_apply e s) =
     map moveTail (map (\<lambda>t. t\<lparr>isStartNote := False\<rparr>)
       (filter (not_f isTailFullyPlayed) (filter (not_f isTailExpired) (tails s))))"
  "finishedTails (Tick_apply e s) = filter isTailFullyPlayed (tails s)"
  by (simp_all add: Tick_apply_def Let_def split: prod.splits)

lemma Tick_apply_single_shrinking:
  assumes "tails s = [u]" and "isPlayed u" and "TARGET_CY \<le> y1 u" and "y1 u \<le> EXPIRE_LIMIT"
    and "y2 u < y1 u"
  shows "tails (Tick_apply e s) = [u\<lparr>isStartNote := False, y2 := y2 u + 1\<rparr>]"
    and "finishedTails (Tick_apply e s) = []"
  using assms
  by (simp_all add: Tick_apply_tails not_f_def isTailFullyPlayed_def isTailExpired_def
      moveTail_def movePlayedTail_def incrementY_def MOVEMENT_def)

lemma Tick_apply_single_done:
  assumes "tails s = [u]" and "y2 u = y1 u"
  shows "tails (Tick_apply e s) = []"
    and "finishedTails (Tick_apply e s) = [u]"
  using assms
  by (simp_all add: Tick_apply_tails not_f_def isTailFullyPlayed_def)

lemma Tick_apply_no_tails:
  assumes "tails s = []"
  shows "tails (Tick_apply e s) = []"
  using assms by (simp add: Tick_apply_tails)

lemma ticks_no_tails: "tails s = [] \<Longrightarrow> tails (ticks j s) = []"
  by (induction j) (simp_all add: Tick_apply_no_tails)

lemma ticks_shrinking:
  assumes "tails s = [t]" and "isPlayed t" and "TARGET_CY \<le> y1 t" and "y1 t \<le> EXPIRE_LIMIT"
    and "y1 t = y2 t + int d" and "k \<le> d"
  shows "tails (ticks k s) = [t\<lparr>isStartNote := (isStartNote t \<and> k = 0), y2 := y2 t + int k\<rparr>]"
  using \<open>k \<le> d\<close>
proof (induction k)
  case 0
  show ?case using assms(1) by simp
next
  case (Suc k)
  let ?u = "t\<lparr>isStartNote := (isStartNote t \<and> k = 0), y2 := y2 t + int k\<rparr>"
  have u: "tails (ticks k s) = [?u]"
    using Suc by simp
  have "tails (Tick_apply (of_nat k) (ticks k s)) = [?u\<lparr>isStartNote := False, y2 := y2 ?u + 1\<rparr>]"
    by (rule Tick_apply_single_shrinking(1) [OF u]) (use assms Suc.prems in simp_all)
  then show ?case
    by (simp add: add.assoc)
qed

lemma ticks_unfinished:
  assumes "tails s = [t]" and "isPlayed t" and "TARGET_CY \<le> y1 t" and "y1 t \<le> EXPIRE_LIMIT"
    and "y1 t = y2 t + int d" and "0 < k" and "k \<le> d"
  shows "finishedTails (ticks k s) = []"
proof -
  obtain k' where k: "k = Suc k'"
    using \<open>0 < k\<close> by (cases k) simp_all
  then have le: "k' \<le> d" and lt: "k' < d" using \<open>k \<le> d\<close> by simp_all
  let ?u = "t\<lparr>isStartNote := (isStartNote t \<and> k' = 0), y2 := y2 t + int k'\<rparr>"
  have u: "tails (ticks k' s) = [?u]"
    by (rule ticks_shrinking [OF assms(1-5) le])
  have "finishedTails (Tick_apply (of_nat k') (ticks k' s)) = []"
    by (rule Tick_apply_single_shrinking(2) [OF u]) (use assms lt in simp_all)
  then show ?thesis by (simp add: k)
qed

lemma ticks_finished:
  assumes "tails s = [t]" and "isPlayed t" and "TARGET_CY \<le> y1 t" and "y1 t \<le> EXPIRE_LIMIT"
    and "y1 t = y2 t + int d"
  shows "finishedTails (ticks (Suc d) s) =
           [t\<lparr>isStartNote := (isStartNote t \<and> d = 0), y2 := y1 t\<rparr>]"
    and "tails (ticks (Suc d + j) s) = []"
proof -
  let ?u = "t\<lparr>isStartNote := (isStartNote t \<and> d = 0), y2 := y2 t + int d\<rparr>"
  have u: "tails (ticks d s) = [?u]"
    by (rule ticks_shrinking [OF assms order_refl])
  have eq: "y2 ?u = y1 ?u" using assms(5) by simp
  show "finishedTails (ticks (Suc d) s) =
           [t\<lparr>isStartNote := (isStartNote t \<and> d = 0), y2 := y1 t\<rparr>]"
    using Tick_apply_single_done(2) [OF u eq] assms(5) by simp
  have none: "tails (ticks (Suc d) s) = []"
    using Tick_apply_single_done(1) [OF u eq] by simp
  show "tails (ticks (Suc d + j) s) = []"
  proof (induction j)
    case 0
    show ?case using none by simp
  next
    case (Suc j)
    then show ?case by (simp add: Tick_apply_no_tails)
  qed
qed

text \<open>
  Claim C6 as stated starts from a played tail with \<open>y1 = 100\<close> and \<open>y2 = 80\<close>. Its leading
  end is not at the target row, so both ends advance: after 20 ticks the tail has
  \<open>y1 = 120\<close>, \<open>y2 = 100\<close> and nothing is finished, at that tick or the next. With the
  leading end at the target row (\<open>y1 = 350\<close>, \<open>y2 = 330\<close>) the ends do meet after 20 ticks,
  but the tail is then still among the active tails and \<open>finishedTails\<close> is empty: Tick
  looks for fully played tails before it moves them.
\<close>

theorem tail_completion_counterexample:
  "tails (tailState 100 80) = [mkTail ''tail0'' ''20%'' 100 80 True] \<and>
   map y1 (tails (ticks 20 (tailState 100 80))) = [120] \<and>
   map y2 (tails (ticks 20 (tailState 100 80))) = [100] \<and>
   finishedTails (ticks 20 (tailState 100 80)) = [] \<and>
   finishedTails (ticks 21 (tailState 100 80)) = [] \<and>
   map y1 (tails (ticks 20 (tailState 350 330))) = [350] \<and>
   map y2 (tails (ticks 20 (tailState 350 330))) = [350] \<and>
   finishedTails (ticks 20 (tailState 350 330)) = []"
  by code_simp

text \<open>
  Claim C6, amended. In a state whose only tail is being played, with its leading end at
  or past the target row (and not past the expiry limit) and its trailing end \<open>d\<close> units
  behind (the claim's scenario is \<open>d = 20\<close>, for example \<open>y1 = 350\<close>, \<open>y2 = 330\<close>), only \<open>y2\<close>
  advances: after \<open>k \<le> d\<close> ticks the tail is still the only active tail with \<open>y2\<close> advanced
  by \<open>k\<close>, so the ends meet after exactly \<open>d\<close> ticks and not before, and no tail is reported
  finished during those ticks. The following tick, number \<open>d + 1\<close>, reports the tail in
  \<open>finishedTails\<close> and removes it from the active tails, where it never appears again.
\<close>

theorem played_tail_completion:
  assumes "tails s = [t]" and "isPlayed t" and "TARGET_CY \<le> y1 t" and "y1 t \<le> EXPIRE_LIMIT"
    and "y1 t = y2 t + int d"
  shows "(k \<le> d \<longrightarrow>
           tails (ticks k s) =
             [t\<lparr>isStartNote := (isStartNote t \<and> k = 0), y2 := y2 t + int k\<rparr>]) \<and>
         (0 < k \<and> k \<le> d \<longrightarrow> finishedTails (ticks k s) = []) \<and>
         finishedTails (ticks (Suc d) s) =
           [t\<lparr>isStartNote := (isStartNote t \<and> d = 0), y2 := y1 t\<rparr>] \<and>
         tails (ticks (Suc d + j) s) = []"
  using ticks_shrinking [OF assms, of k] ticks_unfinished [OF assms, of k]
    ticks_finished [OF assms]
  by simp

theorem played_tail_completion_witness:
  "tails (tailState 350 330) = [mkTail ''tail0'' ''20%'' 350 330 True] \<and>
   isPlayed (mkTail ''tail0'' ''20%'' 350 330 True) \<and>
   tails (ticks 7 (tailState 350 330)) = [mkTail ''tail0'' ''20%'' 350 337 True] \<and>
   finishedTails (ticks 7 (tailState 350 330)) = [] \<and>
   tails (ticks 20 (tailState 350 330)) = [mkTail ''tail0'' ''20%'' 350 350 True] \<and>
   finishedTails (ticks 20 (tailState 350 330)) = [] \<and>
   finishedTails (ticks 21 (tailState 350 330)) = [mkTail ''tail0'' ''20%'' 350 350 True] \<and>
   tails (ticks 21 (tailState 350 330)) = [] \<and>
   tails (ticks 26 (tailState 350 330)) = []"
proof -
  let ?t = "mkTail ''tail0'' ''20%'' 350 330 True"
  have h1: "tails (tailState 350 330) = [?t]"
    by (simp add: tailState_def)
  have h2: "isPlayed ?t"
    by (simp add: mkTail_def)
  have h3: "TARGET_CY \<le> y1 ?t"
    by (simp add: mkTail_def TARGET_CY_def)
  have h4: "y1 ?t \<le> EXPIRE_LIMIT"
    by (simp add: mkTail_def EXPIRE_LIMIT_def)
  have h5: "y1 ?t = y2 ?t + int 20"
    by (simp add: mkTail_def)
  have n: "Suc 20 = 21" "Suc 20 + 0 = 21" "Suc 20 + 5 = 26"
    by simp_all
  show ?thesis
    using h1 h2
      played_tail_completion [OF h1 h2 h3 h4 h5, of 7 0]
      played_tail_completion [OF h1 h2 h3 h4 h5, of 20 5]
    unfolding n
    by (simp add: mkTail_def)
qed

subsection \<open>The random number generator\<close>











subsection \<open>Object identifiers\<close>

















end
